theory Spec2Isabelle
  imports Main
begin

section \<open>Python values handed to the callback manager\<close>

text \<open>
  \<^verbatim>\<open>LoggingCallbackManager\<close> receives arbitrary Python values and inspects them with
  \<^verbatim>\<open>isinstance\<close>, \<^verbatim>\<open>in\<close>, \<^verbatim>\<open>__class__\<close> and \<^verbatim>\<open>__name__\<close>. A value of the model carries
  exactly what these four see.

  An object is its identity (\<open>oid\<close>, Python's \<^verbatim>\<open>id\<close>), the name of its concrete class
  (\<open>cls\<close>), the names of all proper ancestors of that class (\<open>bases\<close>, the rest of
  \<^verbatim>\<open>type(obj).__mro__\<close>), whether the class defines \<^verbatim>\<open>__call__\<close> (\<open>has_call\<close>) and the
  value of \<^verbatim>\<open>obj.__name__\<close> when the attribute exists (\<open>name_attr\<close>). A plain function is
  an object of class \<^verbatim>\<open>function\<close> with \<open>has_call\<close> and a name; a \<^verbatim>\<open>functools.partial\<close>
  is callable and has no \<^verbatim>\<open>__name__\<close>. Classes are identified by their names.
\<close>

record pyobj =
  oid :: nat
  cls :: string
  bases :: "string list"
  has_call :: bool
  name_attr :: "string option"

datatype pyval = PyNone | PyInt int | PyStr string | PyObj pyobj

datatype error = AttributeError

text \<open>The message handed to \<^verbatim>\<open>verbose_logger.debug\<close>, without the rendering of the list.\<close>

datatype debug_event =
    CallbackExists pyval
  | CallbackFunctionExists string
  | CustomLoggerExists string

definition str_class :: string where
  "str_class = ''str''"

definition CustomLogger :: string where
  "CustomLogger = ''CustomLogger''"

fun mro_of :: "pyval \<Rightarrow> string list" where
  "mro_of PyNone = [''NoneType'', ''object'']"
| "mro_of (PyInt _) = [''int'', ''object'']"
| "mro_of (PyStr _) = [''str'', ''object'']"
| "mro_of (PyObj ob) = cls ob # bases ob"

text \<open>\<^verbatim>\<open>v.__class__\<close>\<close>

fun class_of :: "pyval \<Rightarrow> string" where
  "class_of PyNone = ''NoneType''"
| "class_of (PyInt _) = ''int''"
| "class_of (PyStr _) = ''str''"
| "class_of (PyObj ob) = cls ob"

text \<open>\<^verbatim>\<open>isinstance(v, c)\<close>: the class \<open>c\<close> is the class of \<open>v\<close> or one of its ancestors.\<close>

definition isinstance :: "pyval \<Rightarrow> string \<Rightarrow> bool" where
  "isinstance v c = (c \<in> set (mro_of v))"

text \<open>\<^verbatim>\<open>isinstance(v, Callable)\<close>: the class of \<open>v\<close> defines \<^verbatim>\<open>__call__\<close>.\<close>

fun is_callable :: "pyval \<Rightarrow> bool" where
  "is_callable (PyObj ob) = has_call ob"
| "is_callable _ = False"

text \<open>\<^verbatim>\<open>v.__name__\<close>, which raises \<^verbatim>\<open>AttributeError\<close> where the attribute is missing.\<close>

fun get_name :: "pyval \<Rightarrow> error + string" where
  "get_name (PyObj ob) = (case name_attr ob of None \<Rightarrow> Inl AttributeError | Some n \<Rightarrow> Inr n)"
| "get_name _ = Inl AttributeError"

text \<open>
  \<^verbatim>\<open>x in parent_list\<close>: a scan comparing with \<^verbatim>\<open>==\<close>, which is equality of the text for
  strings and identity for objects (the default \<^verbatim>\<open>__eq__\<close>). A value of the model carries
  its identity, so both are equality of the model's values.
\<close>

fun py_in :: "pyval \<Rightarrow> pyval list \<Rightarrow> bool" where
  "py_in x [] = False"
| "py_in x (e # es) = (e = x \<or> py_in x es)"

section \<open>Adding to one list\<close>

text \<open>
  Each function returns the list after the call together with the debug messages it
  emitted, or the exception it raised. An exception leaves the list as it was.
\<close>

definition add_string_callback_to_list ::
  "pyval \<Rightarrow> pyval list \<Rightarrow> error + (pyval list \<times> debug_event list)" where
  "add_string_callback_to_list callback parent_list =
     (if \<not> py_in callback parent_list then Inr (parent_list @ [callback], [])
      else Inr (parent_list, [CallbackExists callback]))"

definition add_callback_function_to_list ::
  "pyval \<Rightarrow> pyval list \<Rightarrow> error + (pyval list \<times> debug_event list)" where
  "add_callback_function_to_list callback parent_list =
     (if \<not> py_in callback parent_list then Inr (parent_list @ [callback], [])
      else (case get_name callback of
              Inl e \<Rightarrow> Inl e
            | Inr n \<Rightarrow> Inr (parent_list, [CallbackFunctionExists n])))"

text \<open>
  The \<^verbatim>\<open>for existing_logger in parent_list\<close> loop of \<^verbatim>\<open>_add_custom_logger_to_list\<close>:
  the second argument is what is left to scan, the third the whole list.
\<close>

fun custom_logger_scan ::
  "pyval \<Rightarrow> pyval list \<Rightarrow> pyval list \<Rightarrow> error + (pyval list \<times> debug_event list)" where
  "custom_logger_scan custom_logger [] parent_list = Inr (parent_list @ [custom_logger], [])"
| "custom_logger_scan custom_logger (existing_logger # rest) parent_list =
     (if isinstance existing_logger CustomLogger
         \<and> isinstance existing_logger (class_of custom_logger)
      then Inr (parent_list, [CustomLoggerExists (class_of custom_logger)])
      else custom_logger_scan custom_logger rest parent_list)"

definition add_custom_logger_to_list ::
  "pyval \<Rightarrow> pyval list \<Rightarrow> error + (pyval list \<times> debug_event list)" where
  "add_custom_logger_to_list custom_logger parent_list =
     custom_logger_scan custom_logger parent_list parent_list"

definition safe_add_callback_to_list ::
  "pyval \<Rightarrow> pyval list \<Rightarrow> error + (pyval list \<times> debug_event list)" where
  "safe_add_callback_to_list callback parent_list =
     (if isinstance callback str_class then add_string_callback_to_list callback parent_list
      else if is_callable callback then add_callback_function_to_list callback parent_list
      else if isinstance callback CustomLogger then add_custom_logger_to_list callback parent_list
      else Inr (parent_list, []))"

section \<open>The seven lists\<close>

text \<open>
  The lists are the module attributes \<^verbatim>\<open>litellm.input_callback\<close>,
  \<^verbatim>\<open>litellm.service_callback\<close>, \<^verbatim>\<open>litellm.callbacks\<close>, \<^verbatim>\<open>litellm.success_callback\<close>,
  \<^verbatim>\<open>litellm.failure_callback\<close>, \<^verbatim>\<open>litellm._async_success_callback\<close> and
  \<^verbatim>\<open>litellm._async_failure_callback\<close>, seven different list objects. \<open>debug_log\<close> collects
  what was handed to \<^verbatim>\<open>verbose_logger.debug\<close>.
\<close>

record registry =
  input_callback :: "pyval list"
  service_callback :: "pyval list"
  callbacks :: "pyval list"
  success_callback :: "pyval list"
  failure_callback :: "pyval list"
  async_success_callback :: "pyval list"
  async_failure_callback :: "pyval list"
  debug_log :: "debug_event list"


text \<open>
  A method returns the registry it leaves behind, or the exception together with the
  registry at the moment it was raised.
\<close>

type_synonym outcome = "(error \<times> registry) + registry"

definition and_then :: "outcome \<Rightarrow> (registry \<Rightarrow> outcome) \<Rightarrow> outcome" where
  "and_then m f = (case m of Inl x \<Rightarrow> Inl x | Inr r \<Rightarrow> f r)"

definition add_input_callback :: "pyval \<Rightarrow> registry \<Rightarrow> outcome" where
  "add_input_callback callback r =
     (case safe_add_callback_to_list callback (input_callback r) of
        Inl e \<Rightarrow> Inl (e, r)
      | Inr (l, ev) \<Rightarrow> Inr (r\<lparr>input_callback := l, debug_log := debug_log r @ ev\<rparr>))"

definition add_service_callback :: "pyval \<Rightarrow> registry \<Rightarrow> outcome" where
  "add_service_callback callback r =
     (case safe_add_callback_to_list callback (service_callback r) of
        Inl e \<Rightarrow> Inl (e, r)
      | Inr (l, ev) \<Rightarrow> Inr (r\<lparr>service_callback := l, debug_log := debug_log r @ ev\<rparr>))"

definition add_callback :: "pyval \<Rightarrow> registry \<Rightarrow> outcome" where
  "add_callback callback r =
     (case safe_add_callback_to_list callback (callbacks r) of
        Inl e \<Rightarrow> Inl (e, r)
      | Inr (l, ev) \<Rightarrow> Inr (r\<lparr>callbacks := l, debug_log := debug_log r @ ev\<rparr>))"

definition add_sync_success_callback :: "pyval \<Rightarrow> registry \<Rightarrow> outcome" where
  "add_sync_success_callback callback r =
     (case safe_add_callback_to_list callback (success_callback r) of
        Inl e \<Rightarrow> Inl (e, r)
      | Inr (l, ev) \<Rightarrow> Inr (r\<lparr>success_callback := l, debug_log := debug_log r @ ev\<rparr>))"

definition add_sync_failure_callback :: "pyval \<Rightarrow> registry \<Rightarrow> outcome" where
  "add_sync_failure_callback callback r =
     (case safe_add_callback_to_list callback (failure_callback r) of
        Inl e \<Rightarrow> Inl (e, r)
      | Inr (l, ev) \<Rightarrow> Inr (r\<lparr>failure_callback := l, debug_log := debug_log r @ ev\<rparr>))"

definition add_async_success_callback :: "pyval \<Rightarrow> registry \<Rightarrow> outcome" where
  "add_async_success_callback callback r =
     (case safe_add_callback_to_list callback (async_success_callback r) of
        Inl e \<Rightarrow> Inl (e, r)
      | Inr (l, ev) \<Rightarrow>
          Inr (r\<lparr>async_success_callback := l, debug_log := debug_log r @ ev\<rparr>))"

definition add_async_failure_callback :: "pyval \<Rightarrow> registry \<Rightarrow> outcome" where
  "add_async_failure_callback callback r =
     (case safe_add_callback_to_list callback (async_failure_callback r) of
        Inl e \<Rightarrow> Inl (e, r)
      | Inr (l, ev) \<Rightarrow>
          Inr (r\<lparr>async_failure_callback := l, debug_log := debug_log r @ ev\<rparr>))"

definition add_success_callback_sync_and_async :: "pyval \<Rightarrow> registry \<Rightarrow> outcome" where
  "add_success_callback_sync_and_async callback r =
     and_then (add_sync_success_callback callback r) (add_async_success_callback callback)"

definition add_failure_callback_sync_and_async :: "pyval \<Rightarrow> registry \<Rightarrow> outcome" where
  "add_failure_callback_sync_and_async callback r =
     and_then (add_sync_failure_callback callback r) (add_async_failure_callback callback)"

definition add_custom_logger_to_all_callback_lists :: "pyval \<Rightarrow> registry \<Rightarrow> outcome" where
  "add_custom_logger_to_all_callback_lists custom_logger r =
     (if custom_logger = PyNone then Inr r
      else if isinstance custom_logger CustomLogger then
        and_then (add_sync_success_callback custom_logger r) (\<lambda>r.
        and_then (add_async_success_callback custom_logger r) (\<lambda>r.
        and_then (add_sync_failure_callback custom_logger r) (\<lambda>r.
        and_then (add_async_failure_callback custom_logger r) (\<lambda>r.
        and_then (add_input_callback custom_logger r) (\<lambda>r.
        add_service_callback custom_logger r)))))
      else Inr r)"

definition reset_all_callbacks :: "registry \<Rightarrow> registry" where
  "reset_all_callbacks r =
     r\<lparr>input_callback := [], success_callback := [], failure_callback := [],
       async_success_callback := [], async_failure_callback := []\<rparr>"

section \<open>Vocabulary of the statements\<close>

text \<open>The seven lists by name, each with the method that adds to it.\<close>

datatype channel =
  Input | Service | Generic | SyncSuccess | SyncFailure | AsyncSuccess | AsyncFailure

fun channel_list :: "channel \<Rightarrow> registry \<Rightarrow> pyval list" where
  "channel_list Input r = input_callback r"
| "channel_list Service r = service_callback r"
| "channel_list Generic r = callbacks r"
| "channel_list SyncSuccess r = success_callback r"
| "channel_list SyncFailure r = failure_callback r"
| "channel_list AsyncSuccess r = async_success_callback r"
| "channel_list AsyncFailure r = async_failure_callback r"

fun add_to :: "channel \<Rightarrow> pyval \<Rightarrow> registry \<Rightarrow> outcome" where
  "add_to Input = add_input_callback"
| "add_to Service = add_service_callback"
| "add_to Generic = add_callback"
| "add_to SyncSuccess = add_sync_success_callback"
| "add_to SyncFailure = add_sync_failure_callback"
| "add_to AsyncSuccess = add_async_success_callback"
| "add_to AsyncFailure = add_async_failure_callback"

fun set_channel_list :: "channel \<Rightarrow> pyval list \<Rightarrow> registry \<Rightarrow> registry" where
  "set_channel_list Input l r = r\<lparr>input_callback := l\<rparr>"
| "set_channel_list Service l r = r\<lparr>service_callback := l\<rparr>"
| "set_channel_list Generic l r = r\<lparr>callbacks := l\<rparr>"
| "set_channel_list SyncSuccess l r = r\<lparr>success_callback := l\<rparr>"
| "set_channel_list SyncFailure l r = r\<lparr>failure_callback := l\<rparr>"
| "set_channel_list AsyncSuccess l r = r\<lparr>async_success_callback := l\<rparr>"
| "set_channel_list AsyncFailure l r = r\<lparr>async_failure_callback := l\<rparr>"

text \<open>The three kinds of callback that \<^verbatim>\<open>_safe_add_callback_to_list\<close> dispatches on.\<close>

definition recognized :: "pyval \<Rightarrow> bool" where
  "recognized cb = (isinstance cb str_class \<or> is_callable cb \<or> isinstance cb CustomLogger)"

text \<open>
  The identity rule of each kind, in the order of the dispatch: a string or a callable is
  registered in a list that holds an equal entry; a handler is registered in a list that
  holds a \<^verbatim>\<open>CustomLogger\<close> which is an instance of the handler's class.
\<close>

definition already_registered :: "pyval \<Rightarrow> pyval list \<Rightarrow> bool" where
  "already_registered cb xs =
     (if isinstance cb str_class \<or> is_callable cb then py_in cb xs
      else list_ex (\<lambda>e. isinstance e CustomLogger \<and> isinstance e (class_of cb)) xs)"

text \<open>How many entries of a list have the concrete class \<open>c\<close>, and how many are instances of it.\<close>

definition count_of_class :: "string \<Rightarrow> pyval list \<Rightarrow> nat" where
  "count_of_class c xs = length (filter (\<lambda>e. class_of e = c) xs)"

definition count_instances :: "string \<Rightarrow> pyval list \<Rightarrow> nat" where
  "count_instances c xs = length (filter (\<lambda>e. isinstance e c) xs)"

text \<open>The registry an operation leaves behind, whether it returned or raised.\<close>

definition outcome_registry :: "outcome \<Rightarrow> registry" where
  "outcome_registry m = (case m of Inl (e, r) \<Rightarrow> r | Inr r \<Rightarrow> r)"

text \<open>
  From \<open>r\<close> to \<open>r'\<close>, each list named in \<open>S\<close> is as it was or has \<open>cb\<close> appended at its
  end, and every other list is as it was.
\<close>

definition grown_within :: "channel set \<Rightarrow> pyval \<Rightarrow> registry \<Rightarrow> registry \<Rightarrow> bool" where
  "grown_within S cb r r' =
     (\<forall>c. if c \<in> S
          then channel_list c r' = channel_list c r \<or> channel_list c r' = channel_list c r @ [cb]
          else channel_list c r' = channel_list c r)"

text \<open>
  From \<open>r\<close> to \<open>r'\<close>, each list named in \<open>S\<close> has \<open>cb\<close> appended if \<open>cb\<close> is of a
  recognized kind and no entry of that list matches it, and is as it was otherwise; every
  other list is as it was.
\<close>

definition appended_where_new :: "channel set \<Rightarrow> pyval \<Rightarrow> registry \<Rightarrow> registry \<Rightarrow> bool" where
  "appended_where_new S cb r r' =
     (\<forall>c. channel_list c r' =
          (if c \<in> S \<and> recognized cb \<and> \<not> already_registered cb (channel_list c r)
           then channel_list c r @ [cb] else channel_list c r))"

subsection \<open>Example values\<close>

text \<open>
  \<^verbatim>\<open>class LoggerA(CustomLogger)\<close>, its subclasses \<^verbatim>\<open>LoggerB(LoggerA)\<close> and
  \<^verbatim>\<open>LoggerB2(LoggerA)\<close>, and an unrelated \<^verbatim>\<open>OtherLogger(CustomLogger)\<close>; none defines
  \<^verbatim>\<open>__call__\<close>.
\<close>

definition handler :: "nat \<Rightarrow> string \<Rightarrow> string list \<Rightarrow> pyval" where
  "handler i c ancestors =
     PyObj \<lparr>oid = i, cls = c, bases = ancestors @ [''CustomLogger'', ''object''],
            has_call = False, name_attr = None\<rparr>"

definition logger_a1 :: pyval where
  "logger_a1 = handler 1 ''LoggerA'' []"

definition logger_a2 :: pyval where
  "logger_a2 = handler 2 ''LoggerA'' []"

definition logger_b :: pyval where
  "logger_b = handler 3 ''LoggerB'' [''LoggerA'']"

definition logger_b2 :: pyval where
  "logger_b2 = handler 4 ''LoggerB2'' [''LoggerA'']"

definition other_logger :: pyval where
  "other_logger = handler 5 ''OtherLogger'' []"

text \<open>\<^verbatim>\<open>functools.partial(print)\<close>: callable, without \<^verbatim>\<open>__name__\<close>.\<close>

definition partial_print :: pyval where
  "partial_print =
     PyObj \<lparr>oid = 6, cls = ''partial'', bases = [''object''],
            has_call = True, name_attr = None\<rparr>"

text \<open>\<^verbatim>\<open>def my_callback(...)\<close>, a plain function.\<close>

definition my_callback :: pyval where
  "my_callback =
     PyObj \<lparr>oid = 7, cls = ''function'', bases = [''object''],
            has_call = True, name_attr = Some ''my_callback''\<rparr>"

definition empty_registry :: registry where
  "empty_registry =
     \<lparr>input_callback = [], service_callback = [], callbacks = [], success_callback = [],
      failure_callback = [], async_success_callback = [], async_failure_callback = [],
      debug_log = []\<rparr>"

text \<open>\<^verbatim>\<open>litellm.callbacks\<close> holding twenty names, the other lists empty.\<close>

definition twenty_names :: "pyval list" where
  "twenty_names = map PyStr
     [''cb01'', ''cb02'', ''cb03'', ''cb04'', ''cb05'', ''cb06'', ''cb07'', ''cb08'', ''cb09'',
      ''cb10'', ''cb11'', ''cb12'', ''cb13'', ''cb14'', ''cb15'', ''cb16'', ''cb17'', ''cb18'',
      ''cb19'', ''cb20'']"

definition full_registry :: registry where
  "full_registry = empty_registry\<lparr>callbacks := twenty_names\<rparr>"


text \<open>\<^verbatim>\<open>litellm.success_callback\<close> holding instances of subclasses of \<^verbatim>\<open>LoggerA\<close>.\<close>

definition subclass_registered :: registry where
  "subclass_registered = empty_registry\<lparr>success_callback := [logger_b]\<rparr>"

definition siblings_registered :: registry where
  "siblings_registered = empty_registry\<lparr>success_callback := [logger_b, logger_b2]\<rparr>"

section \<open>Basic facts\<close>

lemmas add_defs =
  add_input_callback_def add_service_callback_def add_callback_def
  add_sync_success_callback_def add_sync_failure_callback_def
  add_async_success_callback_def add_async_failure_callback_def

lemmas list_add_defs =
  safe_add_callback_to_list_def add_string_callback_to_list_def
  add_callback_function_to_list_def add_custom_logger_to_list_def
  isinstance_def str_class_def CustomLogger_def

lemmas example_defs =
  handler_def logger_a1_def logger_a2_def logger_b_def logger_b2_def other_logger_def
  partial_print_def my_callback_def empty_registry_def

lemma py_in_set: "py_in x xs = (x \<in> set xs)"
  by (induction xs) auto

lemma isinstance_own_class: "isinstance v (class_of v)"
  by (cases v) (simp_all add: isinstance_def)

text \<open>The loop finds the first matching entry, if there is one, and appends otherwise.\<close>

lemma custom_logger_scan_eq:
  "custom_logger_scan h rest whole =
     (if \<exists>e \<in> set rest. isinstance e CustomLogger \<and> isinstance e (class_of h)
      then Inr (whole, [CustomLoggerExists (class_of h)])
      else Inr (whole @ [h], []))"
  by (induction rest) auto

lemma safe_add_fresh:
  assumes "recognized cb" "\<not> already_registered cb xs"
  shows "safe_add_callback_to_list cb xs = Inr (xs @ [cb], [])"
proof (cases "isinstance cb str_class \<or> is_callable cb")
  case True
  with assms(2) have "\<not> py_in cb xs"
    by (simp add: already_registered_def)
  with True show ?thesis
    by (auto simp: safe_add_callback_to_list_def add_string_callback_to_list_def
        add_callback_function_to_list_def)
next
  case False
  with assms have "isinstance cb CustomLogger"
    and "\<not> (\<exists>e \<in> set xs. isinstance e CustomLogger \<and> isinstance e (class_of cb))"
    by (simp_all add: recognized_def already_registered_def list_ex_iff)
  with False show ?thesis
    by (simp add: safe_add_callback_to_list_def add_custom_logger_to_list_def
        custom_logger_scan_eq)
qed

lemma safe_add_unrecognized:
  "\<not> recognized cb \<Longrightarrow> safe_add_callback_to_list cb xs = Inr (xs, [])"
  by (simp add: recognized_def safe_add_callback_to_list_def)

lemma safe_add_string:
  "safe_add_callback_to_list (PyStr s) xs =
     (if PyStr s \<in> set xs then Inr (xs, [CallbackExists (PyStr s)])
      else Inr (xs @ [PyStr s], []))"
  by (simp add: safe_add_callback_to_list_def add_string_callback_to_list_def isinstance_def
      str_class_def py_in_set)

lemma safe_add_shape:
  assumes "safe_add_callback_to_list cb xs = Inr (ys, ev)"
  shows "ys = xs \<or> ys = xs @ [cb]"
  using assms
  by (auto simp: safe_add_callback_to_list_def add_string_callback_to_list_def
      add_callback_function_to_list_def add_custom_logger_to_list_def custom_logger_scan_eq
      split: if_splits sum.splits)

lemma already_registered_Cons:
  "already_registered cb (x # xs) = (already_registered cb [x] \<or> already_registered cb xs)"
  by (auto simp: already_registered_def)

lemma not_already_registered_Nil: "\<not> already_registered cb []"
  by (simp add: already_registered_def)

text \<open>The seven methods differ only in the list they hand to \<^verbatim>\<open>_safe_add_callback_to_list\<close>.\<close>

lemma add_to_eq:
  "add_to ch cb r =
     (case safe_add_callback_to_list cb (channel_list ch r) of
        Inl e \<Rightarrow> Inl (e, r)
      | Inr (l, ev) \<Rightarrow> Inr ((set_channel_list ch l r)\<lparr>debug_log := debug_log r @ ev\<rparr>))"
  by (cases ch) (simp_all add: add_defs split: sum.splits prod.splits)

lemma channel_list_set:
  "channel_list c (set_channel_list ch l r) = (if c = ch then l else channel_list c r)"
  by (cases ch; cases c) simp_all

lemma channel_list_debug_log [simp]:
  "channel_list c (r\<lparr>debug_log := d\<rparr>) = channel_list c r"
  by (cases c) simp_all

lemma debug_log_set [simp]: "debug_log (set_channel_list ch l r) = debug_log r"
  by (cases ch) simp_all

lemma add_to_fresh:
  assumes "recognized cb" "\<not> already_registered cb (channel_list ch r)"
  shows "add_to ch cb r = Inr (set_channel_list ch (channel_list ch r @ [cb]) r)"
  by (simp add: add_to_eq safe_add_fresh [OF assms])

lemma count_instances_0: "(count_instances c xs = 0) = (\<forall>e \<in> set xs. \<not> isinstance e c)"
  by (simp add: count_instances_def filter_empty_conv)

lemma count_of_class_0: "(count_of_class c xs = 0) = (\<forall>e \<in> set xs. class_of e \<noteq> c)"
  by (simp add: count_of_class_def filter_empty_conv)

lemma no_instance_not_registered:
  assumes "count_instances (class_of h) xs = 0"
  shows "\<not> already_registered h xs"
proof -
  from assms have n: "\<forall>e \<in> set xs. \<not> isinstance e (class_of h)"
    by (simp add: count_instances_0)
  then have "h \<notin> set xs"
    using isinstance_own_class [of h] by blast
  with n show ?thesis
    by (auto simp: already_registered_def py_in_set list_ex_iff)
qed

lemma counts_after_append:
  assumes "count_instances (class_of h) xs = 0"
  shows "count_of_class (class_of h) (xs @ [h]) = 1"
    and "count_instances (class_of h) (xs @ [h]) = 1"
proof -
  from assms have n: "\<forall>e \<in> set xs. \<not> isinstance e (class_of h)"
    by (simp add: count_instances_0)
  then have "\<forall>e \<in> set xs. class_of e \<noteq> class_of h"
    using isinstance_own_class by metis
  then have "count_of_class (class_of h) xs = 0"
    by (simp add: count_of_class_0)
  then show "count_of_class (class_of h) (xs @ [h]) = 1"
    by (simp add: count_of_class_def)
  from assms show "count_instances (class_of h) (xs @ [h]) = 1"
    by (simp add: count_instances_def isinstance_own_class)
qed



lemma add_to_grown: "grown_within {ch} cb r (outcome_registry (add_to ch cb r))"
proof (cases "safe_add_callback_to_list cb (channel_list ch r)")
  case (Inl e)
  then show ?thesis
    by (simp add: add_to_eq outcome_registry_def grown_within_def)
next
  case (Inr p)
  obtain ys ev where p: "p = (ys, ev)" by (cases p)
  with Inr safe_add_shape [of cb "channel_list ch r" ys ev]
  have "ys = channel_list ch r \<or> ys = channel_list ch r @ [cb]" by simp
  with Inr p show ?thesis
    by (auto simp: add_to_eq outcome_registry_def grown_within_def channel_list_set)
qed

lemma grown_within_refl: "grown_within S cb r r"
  by (simp add: grown_within_def)

lemma appended_where_new_empty: "appended_where_new {} cb r r"
  by (simp add: appended_where_new_def)

lemma and_then_grown:
  assumes "grown_within S cb r (outcome_registry m)"
    and "\<And>r1. m = Inr r1 \<Longrightarrow> grown_within T cb r1 (outcome_registry (f r1))"
    and "S \<inter> T = {}"
  shows "grown_within (S \<union> T) cb r (outcome_registry (and_then m f))"
proof (cases m)
  case (Inl x)
  then have "and_then m f = m" by (simp add: and_then_def)
  with assms(1) show ?thesis
    by (auto simp: grown_within_def split: if_splits)
next
  case (Inr r1)
  then have e: "and_then m f = f r1" by (simp add: and_then_def)
  from Inr assms(1) have a: "grown_within S cb r r1"
    by (simp add: outcome_registry_def)
  from Inr assms(2) have b: "grown_within T cb r1 (outcome_registry (f r1))" by simp
  show ?thesis
    unfolding e grown_within_def
  proof (intro allI)
    fix c
    from a have ca: "if c \<in> S then channel_list c r1 = channel_list c r
                        \<or> channel_list c r1 = channel_list c r @ [cb]
                     else channel_list c r1 = channel_list c r"
      by (simp add: grown_within_def)
    from b have cb': "if c \<in> T then channel_list c (outcome_registry (f r1)) = channel_list c r1
                        \<or> channel_list c (outcome_registry (f r1)) = channel_list c r1 @ [cb]
                     else channel_list c (outcome_registry (f r1)) = channel_list c r1"
      by (simp add: grown_within_def)
    from ca cb' assms(3)
    show "if c \<in> S \<union> T
          then channel_list c (outcome_registry (f r1)) = channel_list c r
             \<or> channel_list c (outcome_registry (f r1)) = channel_list c r @ [cb]
          else channel_list c (outcome_registry (f r1)) = channel_list c r"
      by (cases "c \<in> S"; cases "c \<in> T") auto
  qed
qed


lemmas add_ops_grown =
  add_to_grown [of Input, simplified] add_to_grown [of Service, simplified]
  add_to_grown [of Generic, simplified] add_to_grown [of SyncSuccess, simplified]
  add_to_grown [of SyncFailure, simplified] add_to_grown [of AsyncSuccess, simplified]
  add_to_grown [of AsyncFailure, simplified]


lemma success_pair_grown:
  "grown_within {SyncSuccess, AsyncSuccess} cb r
     (outcome_registry (add_success_callback_sync_and_async cb r))"
proof -
  have "grown_within ({SyncSuccess} \<union> {AsyncSuccess}) cb r
          (outcome_registry (and_then (add_sync_success_callback cb r) (add_async_success_callback cb)))"
    by (rule and_then_grown, rule add_ops_grown, rule add_ops_grown, simp)
  then show ?thesis
    by (simp add: add_success_callback_sync_and_async_def insert_commute)
qed

lemma failure_pair_grown:
  "grown_within {SyncFailure, AsyncFailure} cb r
     (outcome_registry (add_failure_callback_sync_and_async cb r))"
proof -
  have "grown_within ({SyncFailure} \<union> {AsyncFailure}) cb r
          (outcome_registry (and_then (add_sync_failure_callback cb r) (add_async_failure_callback cb)))"
    by (rule and_then_grown, rule add_ops_grown, rule add_ops_grown, simp)
  then show ?thesis
    by (simp add: add_failure_callback_sync_and_async_def insert_commute)
qed

lemma broadcast_grown:
  "grown_within {SyncSuccess, AsyncSuccess, SyncFailure, AsyncFailure, Input, Service} cb r
     (outcome_registry (add_custom_logger_to_all_callback_lists cb r))"
proof (cases "cb \<noteq> PyNone \<and> isinstance cb CustomLogger")
  case False
  then have "add_custom_logger_to_all_callback_lists cb r = Inr r"
    by (auto simp: add_custom_logger_to_all_callback_lists_def)
  then show ?thesis
    by (simp add: outcome_registry_def grown_within_refl)
next
  case True
  have g5: "\<And>s. grown_within ({Input} \<union> {Service}) cb s
      (outcome_registry (and_then (add_input_callback cb s) (add_service_callback cb)))"
    by (rule and_then_grown, rule add_ops_grown, rule add_ops_grown, simp)
  have g4: "\<And>s. grown_within ({AsyncFailure} \<union> ({Input} \<union> {Service})) cb s
      (outcome_registry (and_then (add_async_failure_callback cb s) (\<lambda>r.
         and_then (add_input_callback cb r) (add_service_callback cb))))"
    by (rule and_then_grown, rule add_ops_grown, rule g5, simp)
  have g3: "\<And>s. grown_within ({SyncFailure} \<union> ({AsyncFailure} \<union> ({Input} \<union> {Service}))) cb s
      (outcome_registry (and_then (add_sync_failure_callback cb s) (\<lambda>r.
         and_then (add_async_failure_callback cb r) (\<lambda>r.
         and_then (add_input_callback cb r) (add_service_callback cb)))))"
    by (rule and_then_grown, rule add_ops_grown, rule g4, simp)
  have g2: "\<And>s. grown_within
        ({AsyncSuccess} \<union> ({SyncFailure} \<union> ({AsyncFailure} \<union> ({Input} \<union> {Service})))) cb s
      (outcome_registry (and_then (add_async_success_callback cb s) (\<lambda>r.
         and_then (add_sync_failure_callback cb r) (\<lambda>r.
         and_then (add_async_failure_callback cb r) (\<lambda>r.
         and_then (add_input_callback cb r) (add_service_callback cb))))))"
    by (rule and_then_grown, rule add_ops_grown, rule g3, simp)
  have g1: "grown_within
        ({SyncSuccess} \<union> ({AsyncSuccess} \<union> ({SyncFailure} \<union> ({AsyncFailure}
           \<union> ({Input} \<union> {Service}))))) cb r
      (outcome_registry (and_then (add_sync_success_callback cb r) (\<lambda>r.
         and_then (add_async_success_callback cb r) (\<lambda>r.
         and_then (add_sync_failure_callback cb r) (\<lambda>r.
         and_then (add_async_failure_callback cb r) (\<lambda>r.
         and_then (add_input_callback cb r) (add_service_callback cb)))))))"
    by (rule and_then_grown, rule add_ops_grown, rule g2, simp)
  have s: "{SyncSuccess} \<union> ({AsyncSuccess} \<union> ({SyncFailure} \<union> ({AsyncFailure}
             \<union> ({Input} \<union> {Service}))))
           = {SyncSuccess, AsyncSuccess, SyncFailure, AsyncFailure, Input, Service}"
    by auto
  from g1 True show ?thesis
    unfolding s by (simp add: add_custom_logger_to_all_callback_lists_def)
qed




section \<open>Handlers: one per class, by \<^verbatim>\<open>isinstance\<close>\<close>

text \<open>
  C1, as the code has it. \<^verbatim>\<open>_add_custom_logger_to_list\<close>, which
  \<^verbatim>\<open>_safe_add_callback_to_list\<close> calls for a handler that is neither a string nor
  callable, on the empty list or any list that holds no \<^verbatim>\<open>CustomLogger\<close> instance of
  either class: the first handler is appended;
  a second handler of the same concrete class is skipped, so the list holds one entry of
  that class, the first instance; a second handler of a different concrete class is
  appended, giving two entries, unless the first instance is also an instance of the
  second's class (its class is a subclass), in which case the second is skipped.
\<close>

theorem custom_logger_one_per_class:
  assumes "isinstance h1 CustomLogger"
    and "\<forall>e \<in> set xs. isinstance e CustomLogger \<longrightarrow>
           \<not> isinstance e (class_of h1) \<and> \<not> isinstance e (class_of h2)"
  shows "add_custom_logger_to_list h1 xs = Inr (xs @ [h1], [])
       \<and> (class_of h2 = class_of h1 \<longrightarrow>
            add_custom_logger_to_list h2 (xs @ [h1])
              = Inr (xs @ [h1], [CustomLoggerExists (class_of h1)]))
       \<and> (isinstance h1 (class_of h2) \<longrightarrow>
            add_custom_logger_to_list h2 (xs @ [h1])
              = Inr (xs @ [h1], [CustomLoggerExists (class_of h2)]))
       \<and> (\<not> isinstance h1 (class_of h2) \<longrightarrow>
            add_custom_logger_to_list h2 (xs @ [h1]) = Inr (xs @ [h1, h2], []))
       \<and> (\<forall>h ys. \<not> isinstance h str_class \<and> \<not> is_callable h \<and> isinstance h CustomLogger \<longrightarrow>
            safe_add_callback_to_list h ys = add_custom_logger_to_list h ys)"
proof -
  have path: "\<forall>h ys. \<not> isinstance h str_class \<and> \<not> is_callable h \<and> isinstance h CustomLogger \<longrightarrow>
      safe_add_callback_to_list h ys = add_custom_logger_to_list h ys"
    by (simp add: safe_add_callback_to_list_def)
  have first: "add_custom_logger_to_list h1 xs = Inr (xs @ [h1], [])"
    using assms(2) by (auto simp: add_custom_logger_to_list_def custom_logger_scan_eq)
  have skip: "isinstance h1 (class_of h2) \<longrightarrow>
      add_custom_logger_to_list h2 (xs @ [h1]) = Inr (xs @ [h1], [CustomLoggerExists (class_of h2)])"
    using assms(1) by (auto simp: add_custom_logger_to_list_def custom_logger_scan_eq)
  have same: "class_of h2 = class_of h1 \<longrightarrow>
      add_custom_logger_to_list h2 (xs @ [h1]) = Inr (xs @ [h1], [CustomLoggerExists (class_of h1)])"
    using skip isinstance_own_class [of h1] by auto
  have both: "\<not> isinstance h1 (class_of h2) \<longrightarrow>
      add_custom_logger_to_list h2 (xs @ [h1]) = Inr (xs @ [h1, h2], [])"
    using assms(2) by (auto simp: add_custom_logger_to_list_def custom_logger_scan_eq)
  from first same skip both path show ?thesis by blast
qed

text \<open>
  Two instances of \<^verbatim>\<open>LoggerA\<close> leave the first; an \<^verbatim>\<open>OtherLogger\<close> after a \<^verbatim>\<open>LoggerA\<close>
  leaves both.
\<close>

theorem custom_logger_one_per_class_witness:
  "isinstance logger_a1 CustomLogger
   \<and> class_of logger_a2 = class_of logger_a1 \<and> logger_a2 \<noteq> logger_a1
   \<and> add_custom_logger_to_list logger_a1 [] = Inr ([logger_a1], [])
   \<and> add_custom_logger_to_list logger_a2 [logger_a1]
       = Inr ([logger_a1], [CustomLoggerExists ''LoggerA''])
   \<and> \<not> isinstance logger_a1 (class_of other_logger)
   \<and> add_custom_logger_to_list other_logger [logger_a1] = Inr ([logger_a1, other_logger], [])"
proof -
  have h1: "isinstance logger_a1 CustomLogger"
    by (simp add: isinstance_def CustomLogger_def example_defs)
  have h2: "\<forall>e \<in> set []. isinstance e CustomLogger \<longrightarrow>
              \<not> isinstance e (class_of logger_a1) \<and> \<not> isinstance e (class_of logger_a2)"
    and h3: "\<forall>e \<in> set []. isinstance e CustomLogger \<longrightarrow>
              \<not> isinstance e (class_of logger_a1) \<and> \<not> isinstance e (class_of other_logger)"
    by simp_all
  have c: "class_of logger_a2 = class_of logger_a1" "logger_a2 \<noteq> logger_a1"
    "class_of logger_a1 = ''LoggerA''" "\<not> isinstance logger_a1 (class_of other_logger)"
    by (simp_all add: isinstance_def example_defs)
  show ?thesis
    using custom_logger_one_per_class [OF h1 h2] custom_logger_one_per_class [OF h1 h3] h1 c
    by simp
qed

text \<open>
  Two different concrete classes do not always give two entries: after an instance of
  \<^verbatim>\<open>LoggerB(LoggerA)\<close>, an instance of \<^verbatim>\<open>LoggerA\<close> is skipped and the list keeps one entry.
\<close>

theorem two_classes_one_entry_counterexample:
  "isinstance logger_b CustomLogger \<and> isinstance logger_a1 CustomLogger
   \<and> class_of logger_b \<noteq> class_of logger_a1
   \<and> add_custom_logger_to_list logger_b [] = Inr ([logger_b], [])
   \<and> add_custom_logger_to_list logger_a1 [logger_b]
       = Inr ([logger_b], [CustomLoggerExists ''LoggerA''])"
  by (simp add: add_custom_logger_to_list_def isinstance_def CustomLogger_def example_defs)

text \<open>
  C10. The rule is asymmetric in subclassing. For handlers \<open>a\<close> and \<open>b\<close> where the class of
  \<open>b\<close> is a strict subclass of the class of \<open>a\<close>: \<open>b\<close> and then \<open>a\<close>, on the empty list,
  leaves the one entry \<open>b\<close> (\<open>a\<close> is skipped, the entry \<open>b\<close> being an instance of the class
  of \<open>a\<close>); \<open>a\<close> and then \<open>b\<close> leaves the two entries \<open>a\<close>, \<open>b\<close>.
\<close>

theorem custom_logger_dedup_subclass_asymmetry:
  assumes "isinstance a CustomLogger" and "isinstance b CustomLogger"
    and "isinstance b (class_of a)" and "\<not> isinstance a (class_of b)"
  shows "add_custom_logger_to_list b [] = Inr ([b], [])
       \<and> add_custom_logger_to_list a [b] = Inr ([b], [CustomLoggerExists (class_of a)])
       \<and> add_custom_logger_to_list a [] = Inr ([a], [])
       \<and> add_custom_logger_to_list b [a] = Inr ([a, b], [])"
  using assms by (simp add: add_custom_logger_to_list_def)

theorem custom_logger_dedup_subclass_asymmetry_witness:
  "isinstance logger_a2 CustomLogger \<and> isinstance logger_b2 CustomLogger
   \<and> isinstance logger_b2 (class_of logger_a2) \<and> \<not> isinstance logger_a2 (class_of logger_b2)
   \<and> add_custom_logger_to_list logger_a2 [logger_b2]
       = Inr ([logger_b2], [CustomLoggerExists ''LoggerA''])
   \<and> add_custom_logger_to_list logger_b2 [logger_a2] = Inr ([logger_a2, logger_b2], [])"
proof -
  have h1: "isinstance logger_a2 CustomLogger" and h2: "isinstance logger_b2 CustomLogger"
    and h3: "isinstance logger_b2 (class_of logger_a2)"
    and h4: "\<not> isinstance logger_a2 (class_of logger_b2)"
    by (simp_all add: example_defs isinstance_def CustomLogger_def)
  have c: "class_of logger_a2 = ''LoggerA''"
    by (simp add: example_defs)
  show ?thesis
    using custom_logger_dedup_subclass_asymmetry [OF h1 h2 h3 h4] h1 h2 h3 h4 c by simp
qed

section \<open>Broadcast to the six lists\<close>

text \<open>
  C2, as the code has it. \<^verbatim>\<open>_add_custom_logger_to_all_callback_lists\<close> with a
  \<^verbatim>\<open>CustomLogger\<close> handler \<open>h\<close>, when none of the six lists (input, service, sync-success,
  async-success, sync-failure, async-failure) holds an instance of the class of \<open>h\<close>,
  instances of its subclasses included: \<open>h\<close> is appended to each of the six lists, each
  then holds exactly one entry of the class of \<open>h\<close>, and \<^verbatim>\<open>litellm.callbacks\<close> is unchanged.
\<close>

theorem broadcast_fresh_handler:
  assumes "isinstance h CustomLogger"
    and "\<forall>c. c \<noteq> Generic \<longrightarrow> count_instances (class_of h) (channel_list c r) = 0"
  shows "\<exists>r'. add_custom_logger_to_all_callback_lists h r = Inr r'
           \<and> (\<forall>c. c \<noteq> Generic \<longrightarrow>
                 channel_list c r' = channel_list c r @ [h]
                 \<and> count_of_class (class_of h) (channel_list c r') = 1
                 \<and> count_instances (class_of h) (channel_list c r') = 1)
           \<and> callbacks r' = callbacks r
           \<and> length (callbacks r') = length (callbacks r)
           \<and> debug_log r' = debug_log r"
proof -
  let ?r' = "r\<lparr>success_callback := success_callback r @ [h],
               async_success_callback := async_success_callback r @ [h],
               failure_callback := failure_callback r @ [h],
               async_failure_callback := async_failure_callback r @ [h],
               input_callback := input_callback r @ [h],
               service_callback := service_callback r @ [h]\<rparr>"
  have rec: "recognized h"
    using assms(1) by (simp add: recognized_def)
  have nn: "h \<noteq> PyNone"
    using assms(1) by (auto simp: isinstance_def CustomLogger_def)
  have fresh: "\<And>c. c \<noteq> Generic \<Longrightarrow>
      safe_add_callback_to_list h (channel_list c r) = Inr (channel_list c r @ [h], [])"
    using assms(2) rec by (simp add: safe_add_fresh no_instance_not_registered)
  have f: "safe_add_callback_to_list h (success_callback r) = Inr (success_callback r @ [h], [])"
    "safe_add_callback_to_list h (async_success_callback r)
       = Inr (async_success_callback r @ [h], [])"
    "safe_add_callback_to_list h (failure_callback r) = Inr (failure_callback r @ [h], [])"
    "safe_add_callback_to_list h (async_failure_callback r)
       = Inr (async_failure_callback r @ [h], [])"
    "safe_add_callback_to_list h (input_callback r) = Inr (input_callback r @ [h], [])"
    "safe_add_callback_to_list h (service_callback r) = Inr (service_callback r @ [h], [])"
    using fresh [of SyncSuccess] fresh [of AsyncSuccess] fresh [of SyncFailure]
      fresh [of AsyncFailure] fresh [of Input] fresh [of Service]
    by simp_all
  have run: "add_custom_logger_to_all_callback_lists h r = Inr ?r'"
    using assms(1) nn
    by (simp add: add_custom_logger_to_all_callback_lists_def and_then_def add_defs f)
  have lists: "\<forall>c. c \<noteq> Generic \<longrightarrow> channel_list c ?r' = channel_list c r @ [h]"
  proof (intro allI impI)
    fix c :: channel assume "c \<noteq> Generic"
    then show "channel_list c ?r' = channel_list c r @ [h]"
      by (cases c) simp_all
  qed
  have cnt: "\<forall>c. c \<noteq> Generic \<longrightarrow>
             count_of_class (class_of h) (channel_list c ?r') = 1
             \<and> count_instances (class_of h) (channel_list c ?r') = 1"
    using assms(2) lists counts_after_append by simp
  have rest: "callbacks ?r' = callbacks r" "debug_log ?r' = debug_log r"
    by simp_all
  from run lists cnt rest show ?thesis
    by (intro exI [of _ ?r']) simp
qed

theorem broadcast_fresh_handler_witness:
  "isinstance logger_a1 CustomLogger
   \<and> count_instances (class_of logger_a1) (channel_list Input full_registry) = 0
   \<and> count_instances (class_of logger_a1) (channel_list Service full_registry) = 0
   \<and> count_instances (class_of logger_a1) (channel_list SyncSuccess full_registry) = 0
   \<and> count_instances (class_of logger_a1) (channel_list SyncFailure full_registry) = 0
   \<and> count_instances (class_of logger_a1) (channel_list AsyncSuccess full_registry) = 0
   \<and> count_instances (class_of logger_a1) (channel_list AsyncFailure full_registry) = 0
   \<and> add_custom_logger_to_all_callback_lists logger_a1 full_registry
       = Inr (full_registry
               \<lparr>input_callback := [logger_a1], service_callback := [logger_a1],
                 success_callback := [logger_a1], failure_callback := [logger_a1],
                 async_success_callback := [logger_a1],
                 async_failure_callback := [logger_a1]\<rparr>)
   \<and> callbacks full_registry = twenty_names
   \<and> count_of_class (class_of logger_a1) [logger_a1] = 1"
proof -
  have h1: "isinstance logger_a1 CustomLogger"
    by (simp add: isinstance_def CustomLogger_def example_defs)
  have six: "count_instances (class_of logger_a1) (channel_list Input full_registry) = 0"
    "count_instances (class_of logger_a1) (channel_list Service full_registry) = 0"
    "count_instances (class_of logger_a1) (channel_list SyncSuccess full_registry) = 0"
    "count_instances (class_of logger_a1) (channel_list SyncFailure full_registry) = 0"
    "count_instances (class_of logger_a1) (channel_list AsyncSuccess full_registry) = 0"
    "count_instances (class_of logger_a1) (channel_list AsyncFailure full_registry) = 0"
    by (simp_all add: count_instances_def full_registry_def empty_registry_def)
  have h2: "\<forall>c. c \<noteq> Generic \<longrightarrow>
              count_instances (class_of logger_a1) (channel_list c full_registry) = 0"
  proof (intro allI impI)
    fix c :: channel assume "c \<noteq> Generic"
    then show "count_instances (class_of logger_a1) (channel_list c full_registry) = 0"
      using six by (cases c) simp_all
  qed
  have run: "add_custom_logger_to_all_callback_lists logger_a1 full_registry
       = Inr (full_registry
               \<lparr>input_callback := [logger_a1], service_callback := [logger_a1],
                 success_callback := [logger_a1], failure_callback := [logger_a1],
                 async_success_callback := [logger_a1],
                 async_failure_callback := [logger_a1]\<rparr>)"
    by (simp add: add_custom_logger_to_all_callback_lists_def and_then_def add_defs
        list_add_defs full_registry_def example_defs)
  have l: "callbacks full_registry = twenty_names"
    by (simp add: full_registry_def empty_registry_def)
  have one: "count_of_class (class_of logger_a1) [logger_a1] = 1"
    by (simp add: count_of_class_def)
  show ?thesis
    using broadcast_fresh_handler [OF h1 h2] h1 six run l one by simp
qed

text \<open>
  That the concrete class of the handler is registered nowhere is not enough. With
  instances of \<^verbatim>\<open>LoggerB(LoggerA)\<close> and \<^verbatim>\<open>LoggerB2(LoggerA)\<close> in
  \<^verbatim>\<open>litellm.success_callback\<close>, no list holds an entry of concrete class \<^verbatim>\<open>LoggerA\<close>;
  broadcasting an instance of \<^verbatim>\<open>LoggerA\<close> leaves that list as it was, with no entry of
  concrete class \<^verbatim>\<open>LoggerA\<close> and two entries that are instances of it.
\<close>

theorem broadcast_counterexample:
  "isinstance logger_a1 CustomLogger
   \<and> count_of_class (class_of logger_a1) (input_callback siblings_registered) = 0
   \<and> count_of_class (class_of logger_a1) (service_callback siblings_registered) = 0
   \<and> count_of_class (class_of logger_a1) (callbacks siblings_registered) = 0
   \<and> count_of_class (class_of logger_a1) (success_callback siblings_registered) = 0
   \<and> count_of_class (class_of logger_a1) (failure_callback siblings_registered) = 0
   \<and> count_of_class (class_of logger_a1) (async_success_callback siblings_registered) = 0
   \<and> count_of_class (class_of logger_a1) (async_failure_callback siblings_registered) = 0
   \<and> add_custom_logger_to_all_callback_lists logger_a1 siblings_registered
       = Inr (siblings_registered
               \<lparr>input_callback := [logger_a1], service_callback := [logger_a1],
                 failure_callback := [logger_a1], async_success_callback := [logger_a1],
                 async_failure_callback := [logger_a1],
                 debug_log := [CustomLoggerExists ''LoggerA'']\<rparr>)
   \<and> success_callback siblings_registered = [logger_b, logger_b2]
   \<and> count_of_class (class_of logger_a1) [logger_b, logger_b2] = 0
   \<and> count_instances (class_of logger_a1) [logger_b, logger_b2] = 2"
  by (simp add: add_custom_logger_to_all_callback_lists_def and_then_def add_defs
      list_add_defs count_of_class_def count_instances_def siblings_registered_def example_defs)

section \<open>Reset\<close>

text \<open>
  C3. After \<^verbatim>\<open>_reset_all_callbacks\<close>, from any state of the registry, the input,
  sync-success, sync-failure, async-success and async-failure lists are empty, and the
  service list and \<^verbatim>\<open>litellm.callbacks\<close> hold exactly what they held before.
\<close>

theorem reset_all_callbacks_effect:
  "input_callback (reset_all_callbacks r) = []
   \<and> success_callback (reset_all_callbacks r) = []
   \<and> failure_callback (reset_all_callbacks r) = []
   \<and> async_success_callback (reset_all_callbacks r) = []
   \<and> async_failure_callback (reset_all_callbacks r) = []
   \<and> service_callback (reset_all_callbacks r) = service_callback r
   \<and> callbacks (reset_all_callbacks r) = callbacks r"
  by (simp add: reset_all_callbacks_def)

section \<open>No limit on the length of a list\<close>



section \<open>Exceptions\<close>

text \<open>
  C5. The add operations are meant to complete on every input, but one path raises.
  \<^verbatim>\<open>_add_callback_function_to_list\<close> builds its debug message from \<^verbatim>\<open>callback.__name__\<close>:
  adding a callable without that attribute, such as a \<^verbatim>\<open>functools.partial\<close>, a second time
  to a list that already holds it raises \<^verbatim>\<open>AttributeError\<close>. The first call appends.
\<close>

theorem duplicate_callable_without_name_raises:
  "add_callback partial_print empty_registry
     = Inr (empty_registry\<lparr>callbacks := [partial_print]\<rparr>)
   \<and> add_callback partial_print (empty_registry\<lparr>callbacks := [partial_print]\<rparr>)
     = Inl (AttributeError, empty_registry\<lparr>callbacks := [partial_print]\<rparr>)"
  by (simp add: add_callback_def list_add_defs example_defs)

text \<open>
  C6. A value that is neither a string, nor callable, nor a \<^verbatim>\<open>CustomLogger\<close> instance is
  ignored by every add operation: the seven per-list methods, the two sync-and-async
  methods and the broadcast return without an exception and leave the registry exactly as
  it was, the seven lists and the debug log alike.
\<close>

theorem unrecognized_callback_is_noop:
  assumes "\<not> recognized cb"
  shows "safe_add_callback_to_list cb xs = Inr (xs, [])
       \<and> add_to ch cb r = Inr r
       \<and> add_success_callback_sync_and_async cb r = Inr r
       \<and> add_failure_callback_sync_and_async cb r = Inr r
       \<and> add_custom_logger_to_all_callback_lists cb r = Inr r"
proof -
  have l: "\<And>ys. safe_add_callback_to_list cb ys = Inr (ys, [])"
    using assms by (rule safe_add_unrecognized)
  have one: "\<And>c s. add_to c cb s = Inr s"
  proof -
    fix c s show "add_to c cb s = Inr s"
      by (cases c) (simp_all add: add_defs l)
  qed
  have nl: "\<not> isinstance cb CustomLogger"
    using assms by (simp add: recognized_def)
  have s: "add_success_callback_sync_and_async cb r = Inr r"
    using one [of SyncSuccess] one [of AsyncSuccess]
    by (simp add: add_success_callback_sync_and_async_def and_then_def)
  have f: "add_failure_callback_sync_and_async cb r = Inr r"
    using one [of SyncFailure] one [of AsyncFailure]
    by (simp add: add_failure_callback_sync_and_async_def and_then_def)
  have b: "add_custom_logger_to_all_callback_lists cb r = Inr r"
    using nl by (simp add: add_custom_logger_to_all_callback_lists_def)
  from l one s f b show ?thesis by simp
qed

theorem unrecognized_callback_is_noop_witness:
  "\<not> recognized (PyInt 42)
   \<and> add_to Input (PyInt 42) full_registry = Inr full_registry
   \<and> add_success_callback_sync_and_async (PyInt 42) full_registry = Inr full_registry
   \<and> add_custom_logger_to_all_callback_lists (PyInt 42) full_registry = Inr full_registry"
proof -
  have h: "\<not> recognized (PyInt 42)"
    by (simp add: recognized_def isinstance_def str_class_def CustomLogger_def)
  show ?thesis
    using unrecognized_callback_is_noop [OF h, of "[]" Input full_registry] h by simp
qed

section \<open>Strings and insertion order\<close>

text \<open>
  C7. Adding the same string twice in a row to any one of the seven lists, when the list
  holds it at most once beforehand (the empty list, and every list that was filled through
  the add methods): both calls return, the second changes none of the lists, and the list
  then holds exactly one entry equal to the string; from the empty list it is the list of
  that one string.
\<close>

theorem string_callback_idempotent:
  assumes "count_list (channel_list ch r) (PyStr s) \<le> 1"
  shows "\<exists>r1 r2. add_to ch (PyStr s) r = Inr r1 \<and> add_to ch (PyStr s) r1 = Inr r2
           \<and> (\<forall>c. channel_list c r2 = channel_list c r1)
           \<and> count_list (channel_list ch r2) (PyStr s) = 1
           \<and> (channel_list ch r = [] \<longrightarrow> channel_list ch r2 = [PyStr s])"
proof (cases "PyStr s \<in> set (channel_list ch r)")
  case True
  then have "count_list (channel_list ch r) (PyStr s) \<noteq> 0"
    by (simp add: count_list_0_iff)
  with assms have one: "count_list (channel_list ch r) (PyStr s) = 1"
    by simp
  let ?r1 = "(set_channel_list ch (channel_list ch r) r)
               \<lparr>debug_log := debug_log r @ [CallbackExists (PyStr s)]\<rparr>"
  have l1: "channel_list ch ?r1 = channel_list ch r"
    by (simp add: channel_list_set)
  have a1: "add_to ch (PyStr s) r = Inr ?r1"
    using True by (simp add: add_to_eq safe_add_string)
  let ?r2 = "(set_channel_list ch (channel_list ch ?r1) ?r1)
               \<lparr>debug_log := debug_log ?r1 @ [CallbackExists (PyStr s)]\<rparr>"
  have a2: "add_to ch (PyStr s) ?r1 = Inr ?r2"
    using True l1 by (simp add: add_to_eq safe_add_string)
  have same: "\<forall>c. channel_list c ?r2 = channel_list c ?r1"
    by (simp add: channel_list_set)
  have cnt: "count_list (channel_list ch ?r2) (PyStr s) = 1"
    using one by (simp add: channel_list_set)
  have emp: "channel_list ch r = [] \<longrightarrow> channel_list ch ?r2 = [PyStr s]"
    using True by auto
  from a1 a2 same cnt emp show ?thesis by blast
next
  case False
  then have zero: "count_list (channel_list ch r) (PyStr s) = 0"
    by (simp add: count_list_0_iff)
  let ?r1 = "set_channel_list ch (channel_list ch r @ [PyStr s]) r"
  have l1: "channel_list ch ?r1 = channel_list ch r @ [PyStr s]"
    by (simp add: channel_list_set)
  have a1: "add_to ch (PyStr s) r = Inr ?r1"
    using False by (simp add: add_to_eq safe_add_string)
  let ?r2 = "(set_channel_list ch (channel_list ch ?r1) ?r1)
               \<lparr>debug_log := debug_log ?r1 @ [CallbackExists (PyStr s)]\<rparr>"
  have a2: "add_to ch (PyStr s) ?r1 = Inr ?r2"
    using l1 by (simp add: add_to_eq safe_add_string)
  have same: "\<forall>c. channel_list c ?r2 = channel_list c ?r1"
    by (simp add: channel_list_set)
  have cnt: "count_list (channel_list ch ?r2) (PyStr s) = 1"
    using zero by (simp add: channel_list_set)
  have emp: "channel_list ch r = [] \<longrightarrow> channel_list ch ?r2 = [PyStr s]"
    by (simp add: channel_list_set)
  from a1 a2 same cnt emp show ?thesis by blast
qed

theorem string_callback_idempotent_witness:
  "count_list (channel_list AsyncFailure empty_registry) (PyStr ''langfuse'') \<le> 1
   \<and> add_to AsyncFailure (PyStr ''langfuse'') empty_registry
       = Inr (empty_registry\<lparr>async_failure_callback := [PyStr ''langfuse'']\<rparr>)
   \<and> add_to AsyncFailure (PyStr ''langfuse'')
         (empty_registry\<lparr>async_failure_callback := [PyStr ''langfuse'']\<rparr>)
       = Inr (empty_registry\<lparr>async_failure_callback := [PyStr ''langfuse''],
                debug_log := [CallbackExists (PyStr ''langfuse'')]\<rparr>)"
proof -
  have h: "count_list (channel_list AsyncFailure empty_registry) (PyStr ''langfuse'') \<le> 1"
    by (simp add: empty_registry_def)
  show ?thesis
    using string_callback_idempotent [OF h] h
    by (simp add: empty_registry_def add_async_failure_callback_def safe_add_string)
qed

text \<open>
  C8, as the code has it. Three callbacks \<open>a\<close>, \<open>b\<close>, \<open>c\<close>, each a string, a callable or a
  handler, such that no earlier one matches a later one under the identity rule of the later
  one's kind (an equal string, the same callable, for a handler an earlier \<^verbatim>\<open>CustomLogger\<close>
  that is an instance of its class), added in this order to an empty list leave the list
  \<open>[a, b, c]\<close>. And no add operation removes or moves an entry: whatever is added, whether
  the call returns or raises, each of the seven per-list methods, the two sync-and-async
  methods and the broadcast leaves every list it targets as it was or with the callback
  appended at its end, and every other list as it was; a per-list method that raises leaves
  the whole registry as it was.
\<close>

theorem insertion_order_preserved:
  assumes "recognized a" and "recognized b" and "recognized c"
    and "\<not> already_registered b [a]" and "\<not> already_registered c [a]"
    and "\<not> already_registered c [b]"
    and "channel_list ch r = []"
  shows "(\<exists>r1 r2 r3. add_to ch a r = Inr r1 \<and> add_to ch b r1 = Inr r2
            \<and> add_to ch c r2 = Inr r3 \<and> channel_list ch r3 = [a, b, c])
       \<and> grown_within {ch0} cb0 r0 (outcome_registry (add_to ch0 cb0 r0))
       \<and> (\<forall>e r'. add_to ch0 cb0 r0 = Inl (e, r') \<longrightarrow> r' = r0)
       \<and> grown_within {SyncSuccess, AsyncSuccess} cb0 r0
            (outcome_registry (add_success_callback_sync_and_async cb0 r0))
       \<and> grown_within {SyncFailure, AsyncFailure} cb0 r0
            (outcome_registry (add_failure_callback_sync_and_async cb0 r0))
       \<and> grown_within {SyncSuccess, AsyncSuccess, SyncFailure, AsyncFailure, Input, Service}
            cb0 r0 (outcome_registry (add_custom_logger_to_all_callback_lists cb0 r0))"
proof -
  let ?r1 = "set_channel_list ch [a] r"
  let ?r2 = "set_channel_list ch [a, b] ?r1"
  let ?r3 = "set_channel_list ch [a, b, c] ?r2"
  have a1: "add_to ch a r = Inr ?r1"
    using add_to_fresh [of a ch r] assms(1,7) by (simp add: not_already_registered_Nil)
  have l1: "channel_list ch ?r1 = [a]"
    by (simp add: channel_list_set)
  have a2: "add_to ch b ?r1 = Inr ?r2"
    using add_to_fresh [of b ch ?r1] assms(2,4) l1 by simp
  have l2: "channel_list ch ?r2 = [a, b]"
    by (simp add: channel_list_set)
  have "\<not> already_registered c [a, b]"
    using assms(5,6) already_registered_Cons [of c a "[b]"] by simp
  then have a3: "add_to ch c ?r2 = Inr ?r3"
    using add_to_fresh [of c ch ?r2] assms(3) l2 by simp
  have l3: "channel_list ch ?r3 = [a, b, c]"
    by (simp add: channel_list_set)
  from a1 a2 a3 l3
  have three: "\<exists>r1 r2 r3. add_to ch a r = Inr r1 \<and> add_to ch b r1 = Inr r2
          \<and> add_to ch c r2 = Inr r3 \<and> channel_list ch r3 = [a, b, c]"
    by blast
  have raise: "\<forall>e r'. add_to ch0 cb0 r0 = Inl (e, r') \<longrightarrow> r' = r0"
    by (auto simp: add_to_eq split: sum.splits prod.splits)
  from three raise add_to_grown success_pair_grown failure_pair_grown broadcast_grown
  show ?thesis by blast
qed

text \<open>A name, a function and a handler, added to \<^verbatim>\<open>litellm.input_callback\<close>.\<close>

theorem insertion_order_preserved_witness:
  "recognized (PyStr ''langfuse'') \<and> recognized my_callback \<and> recognized other_logger
   \<and> \<not> already_registered my_callback [PyStr ''langfuse'']
   \<and> \<not> already_registered other_logger [PyStr ''langfuse'']
   \<and> \<not> already_registered other_logger [my_callback]
   \<and> channel_list Input empty_registry = []
   \<and> add_to Input (PyStr ''langfuse'') empty_registry
       = Inr (empty_registry\<lparr>input_callback := [PyStr ''langfuse'']\<rparr>)
   \<and> add_to Input my_callback (empty_registry\<lparr>input_callback := [PyStr ''langfuse'']\<rparr>)
       = Inr (empty_registry\<lparr>input_callback := [PyStr ''langfuse'', my_callback]\<rparr>)
   \<and> add_to Input other_logger
         (empty_registry\<lparr>input_callback := [PyStr ''langfuse'', my_callback]\<rparr>)
       = Inr (empty_registry\<lparr>input_callback := [PyStr ''langfuse'', my_callback, other_logger]\<rparr>)"
proof -
  have h1: "recognized (PyStr ''langfuse'')" and h2: "recognized my_callback"
    and h3: "recognized other_logger"
    by (simp_all add: recognized_def isinstance_def str_class_def CustomLogger_def example_defs)
  have h4: "\<not> already_registered my_callback [PyStr ''langfuse'']"
    and h5: "\<not> already_registered other_logger [PyStr ''langfuse'']"
    and h6: "\<not> already_registered other_logger [my_callback]"
    by (simp_all add: already_registered_def isinstance_def str_class_def CustomLogger_def
        example_defs)
  have h7: "channel_list Input empty_registry = []"
    by (simp add: empty_registry_def)
  have e: "add_to Input (PyStr ''langfuse'') empty_registry
             = Inr (empty_registry\<lparr>input_callback := [PyStr ''langfuse'']\<rparr>)
         \<and> add_to Input my_callback (empty_registry\<lparr>input_callback := [PyStr ''langfuse'']\<rparr>)
             = Inr (empty_registry\<lparr>input_callback := [PyStr ''langfuse'', my_callback]\<rparr>)
         \<and> add_to Input other_logger
               (empty_registry\<lparr>input_callback := [PyStr ''langfuse'', my_callback]\<rparr>)
             = Inr (empty_registry\<lparr>input_callback :=
                      [PyStr ''langfuse'', my_callback, other_logger]\<rparr>)"
    by (simp add: add_input_callback_def list_add_defs example_defs)
  show ?thesis
    using insertion_order_preserved [OF h1 h2 h3 h4 h5 h6 h7] h1 h2 h3 h4 h5 h6 h7 e
    by simp
qed

text \<open>
  That the three are different callbacks of different classes is not enough. An instance of
  \<^verbatim>\<open>LoggerB(LoggerA)\<close>, an instance of \<^verbatim>\<open>LoggerA\<close> and the name \<^verbatim>\<open>x\<close>, added in this order
  to the empty \<^verbatim>\<open>litellm.input_callback\<close>, leave two entries: the second is skipped, the
  first being an instance of its class.
\<close>

theorem pairwise_distinct_counterexample:
  "recognized logger_b \<and> recognized logger_a1 \<and> recognized (PyStr ''x'')
   \<and> logger_b \<noteq> logger_a1 \<and> logger_b \<noteq> PyStr ''x'' \<and> logger_a1 \<noteq> PyStr ''x''
   \<and> class_of logger_b \<noteq> class_of logger_a1
   \<and> add_to Input logger_b empty_registry
       = Inr (empty_registry\<lparr>input_callback := [logger_b]\<rparr>)
   \<and> add_to Input logger_a1 (empty_registry\<lparr>input_callback := [logger_b]\<rparr>)
       = Inr (empty_registry\<lparr>input_callback := [logger_b],
                debug_log := [CustomLoggerExists ''LoggerA'']\<rparr>)
   \<and> add_to Input (PyStr ''x'')
         (empty_registry\<lparr>input_callback := [logger_b],
            debug_log := [CustomLoggerExists ''LoggerA'']\<rparr>)
       = Inr (empty_registry\<lparr>input_callback := [logger_b, PyStr ''x''],
                debug_log := [CustomLoggerExists ''LoggerA'']\<rparr>)
   \<and> [logger_b, PyStr ''x''] \<noteq> [logger_b, logger_a1, PyStr ''x'']"
  by (simp add: recognized_def add_input_callback_def list_add_defs example_defs)

section \<open>Success callbacks, sync and async\<close>

text \<open>
  C9, as the code has it. For a string, callable or handler \<open>cb\<close> that no entry of the
  sync-success list and no entry of the async-success list matches under the identity rule
  of its kind, \<^verbatim>\<open>add_success_callback_sync_and_async\<close> appends \<open>cb\<close> to both lists, so \<open>cb\<close>
  is present in both, and leaves the sync-failure and async-failure lists unchanged, so \<open>cb\<close>
  is absent from each of them if it was absent before.
\<close>

theorem success_sync_and_async_adds_to_both:
  assumes "recognized cb"
    and "\<not> already_registered cb (success_callback r)"
    and "\<not> already_registered cb (async_success_callback r)"
  shows "\<exists>r'. add_success_callback_sync_and_async cb r = Inr r'
           \<and> success_callback r' = success_callback r @ [cb]
           \<and> async_success_callback r' = async_success_callback r @ [cb]
           \<and> py_in cb (success_callback r') \<and> py_in cb (async_success_callback r')
           \<and> failure_callback r' = failure_callback r
           \<and> async_failure_callback r' = async_failure_callback r
           \<and> (\<not> py_in cb (failure_callback r) \<longrightarrow> \<not> py_in cb (failure_callback r'))
           \<and> (\<not> py_in cb (async_failure_callback r) \<longrightarrow>
                \<not> py_in cb (async_failure_callback r'))"
  using safe_add_fresh [OF assms(1,2)] safe_add_fresh [OF assms(1,3)]
  by (simp add: add_success_callback_sync_and_async_def and_then_def add_defs py_in_set)

theorem success_sync_and_async_adds_to_both_witness:
  "recognized my_callback
   \<and> \<not> already_registered my_callback (success_callback subclass_registered)
   \<and> \<not> already_registered my_callback (async_success_callback subclass_registered)
   \<and> add_success_callback_sync_and_async my_callback subclass_registered
       = Inr (subclass_registered
               \<lparr>success_callback := [logger_b, my_callback],
                 async_success_callback := [my_callback]\<rparr>)
   \<and> failure_callback subclass_registered = []
   \<and> async_failure_callback subclass_registered = []"
proof -
  have h1: "recognized my_callback"
    by (simp add: recognized_def example_defs)
  have l: "success_callback subclass_registered = [logger_b]"
    "async_success_callback subclass_registered = []"
    "failure_callback subclass_registered = []"
    "async_failure_callback subclass_registered = []"
    by (simp_all add: subclass_registered_def empty_registry_def)
  have h2: "\<not> already_registered my_callback (success_callback subclass_registered)"
    and h3: "\<not> already_registered my_callback (async_success_callback subclass_registered)"
    by (simp_all add: l already_registered_def example_defs)
  have run: "add_success_callback_sync_and_async my_callback subclass_registered
       = Inr (subclass_registered
               \<lparr>success_callback := [logger_b, my_callback],
                 async_success_callback := [my_callback]\<rparr>)"
    by (simp add: add_success_callback_sync_and_async_def and_then_def add_defs
        list_add_defs subclass_registered_def example_defs)
  show ?thesis
    using success_sync_and_async_adds_to_both [OF h1 h2 h3] h1 h2 h3 l run by simp
qed

text \<open>
  That \<open>cb\<close> itself is in no list is not enough. With an instance of \<^verbatim>\<open>LoggerB(LoggerA)\<close>
  in \<^verbatim>\<open>litellm.success_callback\<close> and an instance of \<^verbatim>\<open>LoggerA\<close> as \<open>cb\<close>: \<open>cb\<close> is in none
  of the seven lists, and no list holds an entry of its concrete class; after the call
  \<open>cb\<close> is in the async-success list and still not in the sync-success list.
\<close>

theorem success_sync_and_async_counterexample:
  "\<not> py_in logger_a1 (input_callback subclass_registered)
   \<and> \<not> py_in logger_a1 (service_callback subclass_registered)
   \<and> \<not> py_in logger_a1 (callbacks subclass_registered)
   \<and> \<not> py_in logger_a1 (success_callback subclass_registered)
   \<and> \<not> py_in logger_a1 (failure_callback subclass_registered)
   \<and> \<not> py_in logger_a1 (async_success_callback subclass_registered)
   \<and> \<not> py_in logger_a1 (async_failure_callback subclass_registered)
   \<and> add_success_callback_sync_and_async logger_a1 subclass_registered
       = Inr (subclass_registered
               \<lparr>async_success_callback := [logger_a1],
                 debug_log := [CustomLoggerExists ''LoggerA'']\<rparr>)
   \<and> success_callback subclass_registered = [logger_b]
   \<and> \<not> py_in logger_a1 [logger_b]
   \<and> count_of_class (class_of logger_a1) [logger_b] = 0"
  by (simp add: add_success_callback_sync_and_async_def and_then_def add_defs
      list_add_defs count_of_class_def subclass_registered_def example_defs)

end
